theory Spec2Isabelle
  imports Main
begin

section \<open>JavaScript values\<close>

text \<open>
  The values that travel through \<^verbatim>\<open>src/app/api/services.js\<close>: the JSON-like data of
  request bodies, query parameters and response payloads, and the \<^verbatim>\<open>FormData\<close> object of
  a multipart upload. Strings are the UTF-8 byte sequences of well-formed Unicode strings.
  Numbers are the integers that JavaScript represents exactly and prints in decimal
  notation. An object is the list of its own enumerable properties in enumeration order
  (property names are distinct); a \<^verbatim>\<open>FormData\<close> is the list of its entries.
\<close>

datatype jsval =
    JUndefined
  | JNull
  | JBool bool
  | JNum int
  | JStr string
  | JArr "jsval list"
  | JObj "(string \<times> jsval) list"
  | JFormData "(string \<times> string) list"

text \<open>ECMAScript \<^verbatim>\<open>ToBoolean\<close>: what \<^verbatim>\<open>if (v)\<close> and \<^verbatim>\<open>v || w\<close> test.\<close>

fun truthy :: "jsval \<Rightarrow> bool" where
  "truthy JUndefined = False"
| "truthy JNull = False"
| "truthy (JBool b) = b"
| "truthy (JNum n) = (n \<noteq> 0)"
| "truthy (JStr s) = (s \<noteq> [])"
| "truthy (JArr xs) = True"
| "truthy (JObj kvs) = True"
| "truthy (JFormData fd) = True"

text \<open>\<^verbatim>\<open>body instanceof FormData\<close>.\<close>

fun instanceof_FormData :: "jsval \<Rightarrow> bool" where
  "instanceof_FormData (JFormData fd) = True"
| "instanceof_FormData v = False"

text \<open>\<^verbatim>\<open>a || b\<close>.\<close>

definition js_or :: "jsval \<Rightarrow> jsval \<Rightarrow> jsval" where
  "js_or a b = (if truthy a then a else b)"

subsection \<open>Thrown values\<close>

text \<open>
  A thrown value is an \<^verbatim>\<open>Error\<close> object or any other value. An \<^verbatim>\<open>Error\<close> object
  has its \<^verbatim>\<open>name\<close> and \<^verbatim>\<open>message\<close>, and the \<^verbatim>\<open>status\<close> and \<^verbatim>\<open>data\<close> that the class
  \<^verbatim>\<open>ApiError\<close> adds (\<open>None\<close> and \<^verbatim>\<open>undefined\<close> on any other error). Another value is
  thrown when \<^verbatim>\<open>fetch\<close> rejects with the reason of an abort, which the caller chooses
  freely through the \<^verbatim>\<open>signal\<close> option.
\<close>

record js_error =
  error_name :: string
  error_message :: string
  error_status :: "nat option"
  error_data :: jsval

datatype js_thrown = ErrorObject js_error | ThrownValue jsval

text \<open>
  The \<^verbatim>\<open>TypeError\<close> objects that the engine and the platform create. The two messages
  of the engine are in the wording of V8.
\<close>

definition type_error :: "string \<Rightarrow> js_thrown" where
  "type_error msg = ErrorObject \<lparr>error_name = ''TypeError'', error_message = msg,
                                 error_status = None, error_data = JUndefined\<rparr>"

definition cannot_convert :: string where
  "cannot_convert = ''Cannot convert object to primitive value''"

definition cannot_read :: "jsval \<Rightarrow> string \<Rightarrow> string" where
  "cannot_read v k =
     ''Cannot read properties of '' @ (if v = JNull then ''null'' else ''undefined'')
     @ '' (reading '' @ [CHR 0x27] @ k @ [CHR 0x27] @ '')''"

subsection \<open>Conversion to strings\<close>

definition digit_char :: "nat \<Rightarrow> char" where
  "digit_char n = ''0123456789'' ! (n mod 10)"

fun nat_digits :: "nat \<Rightarrow> string" where
  "nat_digits n = (if n < 10 then [digit_char n] else nat_digits (n div 10) @ [digit_char n])"

declare nat_digits.simps [simp del]

definition Number_toString :: "int \<Rightarrow> string" where
  "Number_toString n = (if n < 0 then CHR ''-'' # nat_digits (nat (- n)) else nat_digits (nat n))"

text \<open>\<^verbatim>\<open>pieces.join(sep)\<close> on strings.\<close>

fun join :: "string \<Rightarrow> string list \<Rightarrow> string" where
  "join sep [] = []"
| "join sep [p] = p"
| "join sep (p # q # ps) = p @ sep @ join sep (q # ps)"

text \<open>The results of converting the elements of an array: the first exception wins.\<close>

fun collect_strings :: "(js_thrown + string) list \<Rightarrow> js_thrown + string list" where
  "collect_strings [] = Inr []"
| "collect_strings (Inl thrown # rs) = Inl thrown"
| "collect_strings (Inr s # rs) =
     (case collect_strings rs of Inl thrown \<Rightarrow> Inl thrown | Inr ss \<Rightarrow> Inr (s # ss))"

text \<open>
  ECMAScript \<^verbatim>\<open>ToString\<close>; \<open>Inl\<close> is the exception it throws. An array is joined with
  commas, \<^verbatim>\<open>null\<close> and \<^verbatim>\<open>undefined\<close> elements giving the empty string. A plain object
  is converted by \<^verbatim>\<open>Object.prototype.toString\<close>, unless it has an own property
  \<^verbatim>\<open>toString\<close>: the value of that property is data, not a function, so the conversion
  finds no method that returns a primitive value and throws a \<^verbatim>\<open>TypeError\<close>.
\<close>

fun ToString :: "jsval \<Rightarrow> js_thrown + string" where
  "ToString JUndefined = Inr ''undefined''"
| "ToString JNull = Inr ''null''"
| "ToString (JBool b) = Inr (if b then ''true'' else ''false'')"
| "ToString (JNum n) = Inr (Number_toString n)"
| "ToString (JStr s) = Inr s"
| "ToString (JArr xs) =
     (case collect_strings
             (map (\<lambda>x. if x = JUndefined \<or> x = JNull then Inr [] else ToString x) xs) of
        Inl thrown \<Rightarrow> Inl thrown
      | Inr ss \<Rightarrow> Inr (join '','' ss))"
| "ToString (JObj kvs) =
     (if map_of kvs ''toString'' \<noteq> None then Inl (type_error cannot_convert)
      else Inr ''[object Object]'')"
| "ToString (JFormData fd) = Inr ''[object FormData]''"

subsection \<open>JSON.stringify\<close>

definition hex_digit :: "nat \<Rightarrow> char" where
  "hex_digit n = ''0123456789ABCDEF'' ! (n mod 16)"

definition hex_digit_lower :: "nat \<Rightarrow> char" where
  "hex_digit_lower n = ''0123456789abcdef'' ! (n mod 16)"

text \<open>ECMAScript \<^verbatim>\<open>QuoteJSONString\<close>, one character at a time.\<close>

definition quote_char :: "char \<Rightarrow> string" where
  "quote_char c =
     (if c = CHR 0x22 then [CHR 0x5C, CHR 0x22]
      else if c = CHR 0x5C then [CHR 0x5C, CHR 0x5C]
      else if c = CHR 0x08 then [CHR 0x5C, CHR ''b'']
      else if c = CHR 0x0C then [CHR 0x5C, CHR ''f'']
      else if c = CHR 0x0A then [CHR 0x5C, CHR ''n'']
      else if c = CHR 0x0D then [CHR 0x5C, CHR ''r'']
      else if c = CHR 0x09 then [CHR 0x5C, CHR ''t'']
      else if (of_char c :: nat) < 32
        then [CHR 0x5C, CHR ''u'', CHR ''0'', CHR ''0'',
              hex_digit_lower (of_char c div 16), hex_digit_lower (of_char c)]
      else [c])"

definition QuoteJSONString :: "string \<Rightarrow> string" where
  "QuoteJSONString s = [CHR 0x22] @ concat (map quote_char s) @ [CHR 0x22]"

text \<open>
  \<^verbatim>\<open>JSON.stringify(v)\<close> without replacer or indentation: \<open>None\<close> is the result
  \<^verbatim>\<open>undefined\<close>. A property whose value serializes to \<^verbatim>\<open>undefined\<close> is skipped, such
  an array element is written \<^verbatim>\<open>null\<close>, and a \<^verbatim>\<open>FormData\<close> has no own enumerable
  property.
\<close>

fun JSON_stringify :: "jsval \<Rightarrow> string option" where
  "JSON_stringify JUndefined = None"
| "JSON_stringify JNull = Some ''null''"
| "JSON_stringify (JBool b) = Some (if b then ''true'' else ''false'')"
| "JSON_stringify (JNum n) = Some (Number_toString n)"
| "JSON_stringify (JStr s) = Some (QuoteJSONString s)"
| "JSON_stringify (JArr xs) =
     Some (''['' @ join '','' (map (\<lambda>x. case JSON_stringify x of None \<Rightarrow> ''null'' | Some t \<Rightarrow> t) xs)
           @ '']'')"
| "JSON_stringify (JObj kvs) =
     Some (''{'' @ join '','' (concat (map (\<lambda>(k, v). case JSON_stringify v of
                                                     None \<Rightarrow> []
                                                   | Some t \<Rightarrow> [QuoteJSONString k @ '':'' @ t]) kvs))
           @ ''}'')"
| "JSON_stringify (JFormData fd) = Some ''{}''"

section \<open>URL query encoding\<close>

text \<open>
  \<^verbatim>\<open>URLSearchParams\<close> of the WHATWG URL standard, on byte strings. The serializer leaves
  ASCII letters, digits and \<^verbatim>\<open>* - . _\<close> as they are, writes a space as \<^verbatim>\<open>+\<close> and
  percent-encodes every other byte with upper-case hexadecimal digits.
\<close>

definition urlencoded_safe :: "char \<Rightarrow> bool" where
  "urlencoded_safe c =
     (let n = (of_char c :: nat)
      in (48 \<le> n \<and> n \<le> 57) \<or> (65 \<le> n \<and> n \<le> 90) \<or> (97 \<le> n \<and> n \<le> 122)
         \<or> c \<in> set ''*-._'')"

definition percent_encode_byte :: "char \<Rightarrow> string" where
  "percent_encode_byte c = [CHR ''%'', hex_digit (of_char c div 16), hex_digit (of_char c)]"

fun urlencoded_byte_serialize :: "string \<Rightarrow> string" where
  "urlencoded_byte_serialize [] = []"
| "urlencoded_byte_serialize (c # cs) =
     (if c = CHR '' '' then ''+''
      else if urlencoded_safe c then [c]
      else percent_encode_byte c) @ urlencoded_byte_serialize cs"

fun urlencoded_tuple :: "string \<times> string \<Rightarrow> string" where
  "urlencoded_tuple (n, v) = urlencoded_byte_serialize n @ ''='' @ urlencoded_byte_serialize v"

definition urlencoded_serialize :: "(string \<times> string) list \<Rightarrow> string" where
  "urlencoded_serialize tuples = join ''&'' (map urlencoded_tuple tuples)"

text \<open>
  \<^verbatim>\<open>new URLSearchParams(params)\<close> for a record of properties or a sequence of
  name-value pairs: every value is converted with \<^verbatim>\<open>ToString\<close>, in order, and an
  exception of a conversion leaves the constructor.
\<close>

fun URLSearchParams_new :: "(string \<times> jsval) list \<Rightarrow> js_thrown + (string \<times> string) list" where
  "URLSearchParams_new [] = Inr []"
| "URLSearchParams_new ((k, v) # init) =
     (case ToString v of
        Inl thrown \<Rightarrow> Inl thrown
      | Inr s \<Rightarrow> (case URLSearchParams_new init of
                   Inl thrown \<Rightarrow> Inl thrown
                 | Inr searchParams \<Rightarrow> Inr ((k, s) # searchParams)))"

definition URLSearchParams_toString :: "(string \<times> string) list \<Rightarrow> string" where
  "URLSearchParams_toString searchParams = urlencoded_serialize searchParams"

text \<open>
  The parser of the same standard, which decodes a query string: split at \<^verbatim>\<open>&\<close>, skip
  empty pieces, split each piece at its first \<^verbatim>\<open>=\<close>, turn \<^verbatim>\<open>+\<close> into a space and
  percent-decode.
\<close>

fun split_on :: "char \<Rightarrow> string \<Rightarrow> string list" where
  "split_on d [] = [[]]"
| "split_on d (c # cs) =
     (if c = d then [] # split_on d cs
      else (case split_on d cs of
              [] \<Rightarrow> [[c]]
            | p # ps \<Rightarrow> (c # p) # ps))"

definition is_hex_digit :: "char \<Rightarrow> bool" where
  "is_hex_digit c =
     (let n = (of_char c :: nat)
      in (48 \<le> n \<and> n \<le> 57) \<or> (65 \<le> n \<and> n \<le> 70) \<or> (97 \<le> n \<and> n \<le> 102))"

definition hex_value :: "char \<Rightarrow> nat" where
  "hex_value c =
     (let n = (of_char c :: nat)
      in if n \<le> 57 then n - 48 else if n \<le> 70 then n - 55 else n - 87)"

fun percent_decode :: "string \<Rightarrow> string" where
  "percent_decode (c # a # b # rest) =
     (if c = CHR ''%'' \<and> is_hex_digit a \<and> is_hex_digit b
      then char_of (16 * hex_value a + hex_value b) # percent_decode rest
      else c # percent_decode (a # b # rest))"
| "percent_decode (c # rest) = c # percent_decode rest"
| "percent_decode [] = []"

definition plus_to_space :: "string \<Rightarrow> string" where
  "plus_to_space bytes = map (\<lambda>c. if c = CHR ''+'' then CHR '' '' else c) bytes"

definition split_name_value :: "string \<Rightarrow> string \<times> string" where
  "split_name_value bytes =
     (takeWhile (\<lambda>c. c \<noteq> CHR ''='') bytes, drop 1 (dropWhile (\<lambda>c. c \<noteq> CHR ''='') bytes))"

definition urlencoded_parse :: "string \<Rightarrow> (string \<times> string) list" where
  "urlencoded_parse input =
     map (\<lambda>bytes. case split_name_value bytes of
                     (n, v) \<Rightarrow> (percent_decode (plus_to_space n), percent_decode (plus_to_space v)))
         (filter (\<lambda>bytes. bytes \<noteq> []) (split_on CHR ''&'' input))"

section \<open>The API client of \<^verbatim>\<open>services.js\<close>\<close>

subsection \<open>Data\<close>

text \<open>
  What the code reads of a \<^verbatim>\<open>Response\<close>: \<^verbatim>\<open>ok\<close>, \<^verbatim>\<open>status\<close>, \<^verbatim>\<open>statusText\<close> and the
  outcome of \<^verbatim>\<open>response.json()\<close>, which is \<open>None\<close> when that promise rejects (the body
  is empty, is not JSON, or cannot be read).
\<close>

record response =
  ok :: bool
  status :: nat
  statusText :: string
  json :: "jsval option"

text \<open>The object \<^verbatim>\<open>requestOptions\<close> handed to \<^verbatim>\<open>fetch\<close>; \<open>ro_body = None\<close> is no \<^verbatim>\<open>body\<close> property.\<close>

record request_options =
  ro_method :: string
  ro_headers :: "string \<rightharpoonup> string"
  ro_body :: "jsval option"
  ro_options :: "string \<rightharpoonup> jsval"

datatype fetch_result = Rejected js_thrown | Resolved response

text \<open>
  The second argument of \<^verbatim>\<open>request\<close>, destructured as
  \<^verbatim>\<open>{ method = "GET", body, params, headers = {}, ...options } = {}\<close>. An absent
  \<^verbatim>\<open>method\<close> is \<open>None\<close>, an absent \<^verbatim>\<open>body\<close> is \<^verbatim>\<open>undefined\<close>. \<^verbatim>\<open>params\<close> is \<open>None\<close> when
  it is absent (or any other falsy value, which \<^verbatim>\<open>if (params)\<close> treats alike), and
  otherwise the entries of the object, or of the sequence of name-value pairs, that the
  caller passes. Header values are strings.
\<close>

record options_bag =
  "method" :: "string option"
  body :: jsval
  params :: "(string \<times> jsval) list option"
  headers :: "string \<rightharpoonup> string"
  options :: "string \<rightharpoonup> jsval"

text \<open>
  What the module reads from its surroundings: the environment variable, the browser's
  \<^verbatim>\<open>localStorage\<close> (present and readable) and the network behind \<^verbatim>\<open>fetch\<close>.
\<close>

record env =
  NEXT_PUBLIC_API_URL :: "string option"
  localStorage :: "string \<rightharpoonup> string"
  fetch :: "string \<Rightarrow> request_options \<Rightarrow> fetch_result"

subsection \<open>Operations\<close>

definition API_BASE :: "env \<Rightarrow> string" where
  "API_BASE env =
     (case NEXT_PUBLIC_API_URL env of
        Some u \<Rightarrow> if u \<noteq> [] then u @ ''/api'' else ''http://127.0.0.1:5000/api''
      | None \<Rightarrow> ''http://127.0.0.1:5000/api'')"

text \<open>
  \<^verbatim>\<open>new ApiError(message, status, data)\<close>: \<^verbatim>\<open>super(message)\<close> stores the string
  conversion of a message that is not \<^verbatim>\<open>undefined\<close>, and the exception of that
  conversion leaves the constructor.
\<close>

definition ApiError :: "jsval \<Rightarrow> nat \<Rightarrow> jsval \<Rightarrow> js_thrown + js_error" where
  "ApiError message status_code data =
     (case (if message = JUndefined then Inr [] else ToString message) of
        Inl thrown \<Rightarrow> Inl thrown
      | Inr str \<Rightarrow> Inr \<lparr>error_name = ''ApiError'', error_message = str,
                          error_status = Some status_code, error_data = data\<rparr>)"

text \<open>
  \<^verbatim>\<open>throw new ApiError(message, status, data)\<close>: what is thrown is the new object, or
  the exception of its constructor.
\<close>

definition throw_new_ApiError :: "jsval \<Rightarrow> nat \<Rightarrow> jsval \<Rightarrow> js_thrown" where
  "throw_new_ApiError message status_code data =
     (case ApiError message status_code data of
        Inl thrown \<Rightarrow> thrown
      | Inr error \<Rightarrow> ErrorObject error)"

definition getAuthToken :: "env \<Rightarrow> jsval" where
  "getAuthToken env = (case localStorage env ''token'' of Some t \<Rightarrow> JStr t | None \<Rightarrow> JNull)"

text \<open>\<^verbatim>\<open>localStorage.setItem\<close> stores the string conversion of its argument.\<close>

definition setAuthToken :: "jsval \<Rightarrow> env \<Rightarrow> js_thrown + env" where
  "setAuthToken token env =
     (case ToString token of
        Inl thrown \<Rightarrow> Inl thrown
      | Inr t \<Rightarrow> Inr (env\<lparr>localStorage := (localStorage env)(''token'' \<mapsto> t)\<rparr>))"

definition clearAuthToken :: "env \<Rightarrow> env" where
  "clearAuthToken env = env\<lparr>localStorage := (localStorage env)(''token'' := None)\<rparr>"

text \<open>
  Lines 27 to 31 of \<^verbatim>\<open>request\<close>: the URL, or the exception of
  \<^verbatim>\<open>new URLSearchParams(params)\<close>.
\<close>

definition request_url :: "env \<Rightarrow> string \<Rightarrow> options_bag \<Rightarrow> js_thrown + string" where
  "request_url env path opts =
     (let url = API_BASE env @ path
      in case params opts of
           None \<Rightarrow> Inr url
         | Some ps \<Rightarrow>
             (case URLSearchParams_new ps of
                Inl thrown \<Rightarrow> Inl thrown
              | Inr searchParams \<Rightarrow> Inr (url @ ''?'' @ URLSearchParams_toString searchParams)))"

text \<open>
  The characters of a string. \<^verbatim>\<open>localStorage.getItem\<close> returns a string or
  \<^verbatim>\<open>null\<close>, so a truthy token is a string, and \<^verbatim>\<open>`Bearer ${token}`\<close> appends that string.
\<close>

fun string_value :: "jsval \<Rightarrow> string" where
  "string_value (JStr s) = s"
| "string_value v = []"

text \<open>Lines 34 to 57 of \<^verbatim>\<open>request\<close>: the object \<^verbatim>\<open>requestOptions\<close>.\<close>

definition requestOptions :: "env \<Rightarrow> options_bag \<Rightarrow> request_options" where
  "requestOptions env opts =
     (let ro = \<lparr>ro_method = (case method opts of None \<Rightarrow> ''GET'' | Some m \<Rightarrow> m),
                ro_headers = [''Content-Type'' \<mapsto> ''application/json''] ++ headers opts,
                ro_body = None,
                ro_options = options opts\<rparr>;
          token = getAuthToken env;
          ro = (if truthy token
                then ro\<lparr>ro_headers := (ro_headers ro)(''Authorization'' \<mapsto> ''Bearer '' @ string_value token)\<rparr>
                else ro)
      in if truthy (body opts)
         then (if instanceof_FormData (body opts)
               then ro\<lparr>ro_body := Some (body opts),
                       ro_headers := (ro_headers ro)(''Content-Type'' := None)\<rparr>
               else ro\<lparr>ro_body := Some (case JSON_stringify (body opts) of
                                            None \<Rightarrow> JUndefined
                                          | Some text \<Rightarrow> JStr text)\<rparr>)
         else ro)"

text \<open>\<^verbatim>\<open>await response.json().catch(() => null)\<close>.\<close>

definition responseData :: "response \<Rightarrow> jsval" where
  "responseData resp = (case json resp of None \<Rightarrow> JNull | Some d \<Rightarrow> d)"

text \<open>
  \<^verbatim>\<open>v?.message\<close>: \<^verbatim>\<open>undefined\<close> on \<^verbatim>\<open>null\<close> and \<^verbatim>\<open>undefined\<close>, the property of an
  object, and \<^verbatim>\<open>undefined\<close> on every value that has no such property.
\<close>

fun optional_message :: "jsval \<Rightarrow> jsval" where
  "optional_message (JObj kvs) = (case map_of kvs ''message'' of Some m \<Rightarrow> m | None \<Rightarrow> JUndefined)"
| "optional_message v = JUndefined"

text \<open>Lines 60 to 71: the body of the \<^verbatim>\<open>try\<close> block; \<open>Inl\<close> is a thrown value.\<close>

definition request_try :: "env \<Rightarrow> string \<Rightarrow> request_options \<Rightarrow> js_thrown + jsval" where
  "request_try env url ro =
     (case fetch env url ro of
        Rejected error \<Rightarrow> Inl error
      | Resolved resp \<Rightarrow>
          if \<not> ok resp
          then Inl (throw_new_ApiError
                      (js_or (optional_message (responseData resp)) (JStr (statusText resp)))
                      (status resp) (responseData resp))
          else Inr (responseData resp))"

text \<open>
  \<^verbatim>\<open>error.name\<close> and \<^verbatim>\<open>error.message\<close> on a caught value. Reading a property of
  \<^verbatim>\<open>null\<close> or \<^verbatim>\<open>undefined\<close> throws a \<^verbatim>\<open>TypeError\<close>; an object gives its property or
  \<^verbatim>\<open>undefined\<close>; any other value has neither property.
\<close>

fun read_property :: "js_thrown \<Rightarrow> string \<Rightarrow> js_thrown + jsval" where
  "read_property (ErrorObject e) k =
     Inr (if k = ''name'' then JStr (error_name e)
          else if k = ''message'' then JStr (error_message e)
          else if k = ''status''
            then (case error_status e of Some n \<Rightarrow> JNum (int n) | None \<Rightarrow> JUndefined)
          else if k = ''data'' then error_data e
          else JUndefined)"
| "read_property (ThrownValue JUndefined) k = Inl (type_error (cannot_read JUndefined k))"
| "read_property (ThrownValue JNull) k = Inl (type_error (cannot_read JNull k))"
| "read_property (ThrownValue (JObj kvs)) k =
     Inr (case map_of kvs k of Some v \<Rightarrow> v | None \<Rightarrow> JUndefined)"
| "read_property (ThrownValue v) k = Inr JUndefined"

text \<open>
  Lines 72 to 82: the \<^verbatim>\<open>catch\<close> block, which always throws; the result is what it
  throws, the exceptions of its own expressions included.
\<close>

definition request_catch :: "js_thrown \<Rightarrow> js_thrown" where
  "request_catch error =
     (case read_property error ''name'' of
        Inl thrown \<Rightarrow> thrown
      | Inr n \<Rightarrow>
          if n = JStr ''ApiError'' then error
          else (case read_property error ''message'' of
                  Inl thrown \<Rightarrow> thrown
                | Inr m \<Rightarrow> throw_new_ApiError (js_or m (JStr ''Network request failed'')) 0 JNull))"

text \<open>
  \<^verbatim>\<open>request\<close>: the URL is composed and \<^verbatim>\<open>requestOptions\<close> is built before the
  \<^verbatim>\<open>try\<close> block, so an exception of those lines leaves \<^verbatim>\<open>request\<close> as it is.
\<close>

definition request :: "env \<Rightarrow> string \<Rightarrow> options_bag \<Rightarrow> js_thrown + jsval" where
  "request env path opts =
     (case request_url env path opts of
        Inl thrown \<Rightarrow> Inl thrown
      | Inr url \<Rightarrow>
          (case request_try env url (requestOptions env opts) of
             Inl error \<Rightarrow> Inl (request_catch error)
           | Inr payload \<Rightarrow> Inr payload))"

text \<open>A call \<^verbatim>\<open>request(path)\<close> without a second argument.\<close>

definition no_options :: options_bag where
  "no_options = \<lparr>method = None, body = JUndefined, params = None, headers = Map.empty,
                 options = Map.empty\<rparr>"

text \<open>\<^verbatim>\<open>auth.logout\<close>: the environment after the call, and the outcome of the request.\<close>

definition auth_logout :: "env \<Rightarrow> env \<times> (js_thrown + jsval)" where
  "auth_logout env =
     (let env' = clearAuthToken env
      in (env', request env' ''/auth/logout'' no_options))"

subsection \<open>Concrete surroundings and inputs\<close>

text \<open>
  A development environment (no \<^verbatim>\<open>NEXT_PUBLIC_API_URL\<close>) with a given storage and
  network, a storage without and with a token, a network that answers every call with one
  response or rejects every call with one value (a \<^verbatim>\<open>TypeError\<close> is what \<^verbatim>\<open>fetch\<close>
  rejects with when the connection fails).
\<close>

definition dev_env ::
  "(string \<rightharpoonup> string) \<Rightarrow> (string \<Rightarrow> request_options \<Rightarrow> fetch_result) \<Rightarrow> env" where
  "dev_env storage network =
     \<lparr>NEXT_PUBLIC_API_URL = None, localStorage = storage, fetch = network\<rparr>"

definition no_token :: "string \<rightharpoonup> string" where
  "no_token = Map.empty"

definition stored_token :: "string \<Rightarrow> (string \<rightharpoonup> string)" where
  "stored_token t = [''token'' \<mapsto> t]"

definition responds :: "response \<Rightarrow> string \<Rightarrow> request_options \<Rightarrow> fetch_result" where
  "responds resp url ro = Resolved resp"

definition rejects :: "js_thrown \<Rightarrow> string \<Rightarrow> request_options \<Rightarrow> fetch_result" where
  "rejects error url ro = Rejected error"

definition one_header :: "string \<Rightarrow> string \<Rightarrow> (string \<rightharpoonup> string)" where
  "one_header k v = [k \<mapsto> v]"

subsection \<open>Notions of the specification\<close>

text \<open>
  The error message as the specification words it: the \<^verbatim>\<open>message\<close> field of the parsed
  payload when that field is present, and the status text otherwise.
\<close>

definition claimed_error_message :: "response \<Rightarrow> jsval" where
  "claimed_error_message resp =
     (case json resp of
        Some (JObj kvs) \<Rightarrow>
          (case map_of kvs ''message'' of Some m \<Rightarrow> m | None \<Rightarrow> JStr (statusText resp))
      | _ \<Rightarrow> JStr (statusText resp))"

text \<open>The key-value pairs that decoding a query string gives; a decoded value is a string.\<close>

definition decoded_pairs :: "string \<Rightarrow> (string \<times> jsval) list" where
  "decoded_pairs query = map (\<lambda>(k, v). (k, JStr v)) (urlencoded_parse query)"

definition is_string :: "jsval \<Rightarrow> bool" where
  "is_string v = (case v of JStr s \<Rightarrow> True | _ \<Rightarrow> False)"

section \<open>Facts about the query encoding\<close>

lemmas eval_simps =
  dev_env_def no_token_def stored_token_def responds_def rejects_def one_header_def
  type_error_def request_def request_try_def request_catch_def request_url_def
  requestOptions_def responseData_def ApiError_def throw_new_ApiError_def js_or_def
  getAuthToken_def clearAuthToken_def API_BASE_def no_options_def auth_logout_def Let_def

lemma hex_digit_table:
  "\<forall>n \<in> set [0..<16]. is_hex_digit (hex_digit n) \<and> hex_value (hex_digit n) = n
      \<and> hex_digit n \<noteq> CHR ''&'' \<and> hex_digit n \<noteq> CHR ''=''  \<and> hex_digit n \<noteq> CHR ''+''
      \<and> urlencoded_safe (hex_digit n)"
  by code_simp

lemma hex_digit_mod: "hex_digit (n mod 16) = hex_digit n"
  by (simp add: hex_digit_def)

lemma hex_digit_props:
  "is_hex_digit (hex_digit n)" "hex_value (hex_digit n) = n mod 16"
  "hex_digit n \<noteq> CHR ''&''" "hex_digit n \<noteq> CHR ''=''" "hex_digit n \<noteq> CHR ''+''"
  "urlencoded_safe (hex_digit n)"
proof -
  have "n mod 16 \<in> set [0..<16]" by simp
  then have "is_hex_digit (hex_digit (n mod 16)) \<and> hex_value (hex_digit (n mod 16)) = n mod 16
      \<and> hex_digit (n mod 16) \<noteq> CHR ''&'' \<and> hex_digit (n mod 16) \<noteq> CHR ''=''
      \<and> hex_digit (n mod 16) \<noteq> CHR ''+'' \<and> urlencoded_safe (hex_digit (n mod 16))"
    using hex_digit_table by blast
  then show "is_hex_digit (hex_digit n)" "hex_value (hex_digit n) = n mod 16"
    "hex_digit n \<noteq> CHR ''&''" "hex_digit n \<noteq> CHR ''=''" "hex_digit n \<noteq> CHR ''+''"
    "urlencoded_safe (hex_digit n)"
    by (simp_all add: hex_digit_mod)
qed

lemma hex_digit_not_sep:
  "CHR ''&'' \<noteq> hex_digit n" "CHR ''='' \<noteq> hex_digit n"
  using hex_digit_props(3,4)[of n] by auto

lemma byte_roundtrip:
  "char_of (16 * ((of_char c :: nat) div 16 mod 16) + of_char c mod 16) = c"
proof -
  have lt: "(of_char c :: nat) < 256" by simp
  then have hi: "(of_char c :: nat) div 16 < 16" by arith
  then have "16 * ((of_char c :: nat) div 16 mod 16) + of_char c mod 16 = of_char c" by simp
  then show ?thesis by simp
qed

lemma safe_not_special:
  "urlencoded_safe c \<Longrightarrow> c \<noteq> CHR ''%'' \<and> c \<noteq> CHR ''+'' \<and> c \<noteq> CHR ''&'' \<and> c \<noteq> CHR ''=''"
  by (auto simp: urlencoded_safe_def)

lemma percent_decode_plain:
  "c \<noteq> CHR ''%'' \<Longrightarrow> percent_decode (c # rest) = c # percent_decode rest"
  by (cases "c # rest" rule: percent_decode.cases) auto

lemma percent_decode_encoded:
  "percent_decode (plus_to_space (percent_encode_byte c) @ rest) = c # percent_decode rest"
  by (simp add: percent_encode_byte_def plus_to_space_def hex_digit_props byte_roundtrip)

lemma plus_to_space_append: "plus_to_space (xs @ ys) = plus_to_space xs @ plus_to_space ys"
  by (simp add: plus_to_space_def)

lemma decode_byte_serialize_append:
  "percent_decode (plus_to_space (urlencoded_byte_serialize s) @ rest) = s @ percent_decode rest"
proof (induction s)
  case Nil
  then show ?case by (simp add: plus_to_space_def)
next
  case (Cons c s)
  show ?case
  proof (cases "c = CHR '' ''")
    case True
    then show ?thesis using Cons.IH
      by (simp add: plus_to_space_append percent_decode_plain) (simp add: plus_to_space_def percent_decode_plain)
  next
    case False
    show ?thesis
    proof (cases "urlencoded_safe c")
      case True
      with False show ?thesis using Cons.IH safe_not_special[OF True]
        by (simp add: plus_to_space_append) (simp add: plus_to_space_def percent_decode_plain)
    next
      case False
      with \<open>c \<noteq> CHR '' ''\<close> show ?thesis using Cons.IH
        by (simp add: plus_to_space_append percent_decode_encoded)
    qed
  qed
qed

lemma decode_byte_serialize: "percent_decode (plus_to_space (urlencoded_byte_serialize s)) = s"
  using decode_byte_serialize_append[of s "[]"] by simp

lemma byte_serialize_no_separator:
  "CHR ''&'' \<notin> set (urlencoded_byte_serialize s) \<and> CHR ''='' \<notin> set (urlencoded_byte_serialize s)"
  by (induction s) (auto simp: percent_encode_byte_def hex_digit_not_sep dest: safe_not_special)

lemma byte_serialize_alphabet:
  "c \<in> set (urlencoded_byte_serialize s) \<Longrightarrow> urlencoded_safe c \<or> c \<in> set ''%+''"
  by (induction s) (auto simp: percent_encode_byte_def hex_digit_props split: if_splits)

lemma split_on_plain: "d \<notin> set p \<Longrightarrow> split_on d p = [p]"
  by (induction p) auto

lemma split_on_piece: "d \<notin> set p \<Longrightarrow> split_on d (p @ d # rest) = p # split_on d rest"
  by (induction p) auto

lemma split_on_join:
  "pieces \<noteq> [] \<Longrightarrow> \<forall>p \<in> set pieces. d \<notin> set p \<Longrightarrow> split_on d (join [d] pieces) = pieces"
proof (induction "[d]" pieces rule: join.induct)
  case 1
  then show ?case by simp
next
  case (2 p)
  then show ?case by (simp add: split_on_plain)
next
  case (3 p q ps)
  then show ?case by (simp add: split_on_piece)
qed

lemma split_name_value_pair:
  "CHR ''='' \<notin> set n \<Longrightarrow> split_name_value (n @ CHR ''='' # v) = (n, v)"
  by (induction n) (auto simp: split_name_value_def)

lemma urlencoded_tuple_props:
  "urlencoded_tuple t \<noteq> []" "CHR ''&'' \<notin> set (urlencoded_tuple t)"
  using byte_serialize_no_separator[of "fst t"] byte_serialize_no_separator[of "snd t"]
  by (cases t; auto)+

lemma urlencoded_tuple_alphabet:
  "c \<in> set (urlencoded_tuple t) \<Longrightarrow> urlencoded_safe c \<or> c \<in> set ''%+=''"
  by (cases t) (auto dest: byte_serialize_alphabet)

lemma decode_tuple:
  "(case split_name_value (urlencoded_tuple t) of
      (n, v) \<Rightarrow> (percent_decode (plus_to_space n), percent_decode (plus_to_space v))) = t"
  using byte_serialize_no_separator[of "fst t"]
  by (cases t) (simp add: split_name_value_pair decode_byte_serialize)

lemma urlencoded_roundtrip: "urlencoded_parse (urlencoded_serialize tuples) = tuples"
proof (cases "tuples = []")
  case True
  then show ?thesis by (simp add: urlencoded_parse_def urlencoded_serialize_def)
next
  case False
  have "split_on CHR ''&'' (join ''&'' (map urlencoded_tuple tuples)) = map urlencoded_tuple tuples"
    using False by (intro split_on_join) (auto simp: urlencoded_tuple_props)
  moreover have "filter (\<lambda>bytes. bytes \<noteq> []) (map urlencoded_tuple tuples) = map urlencoded_tuple tuples"
    by (simp add: filter_id_conv urlencoded_tuple_props)
  ultimately show ?thesis
    by (simp add: urlencoded_parse_def urlencoded_serialize_def comp_def decode_tuple)
qed

lemma join_eq_Nil: "join sep ps = [] \<Longrightarrow> ps = [] \<or> hd ps = []"
  by (induction sep ps rule: join.induct) auto

lemma urlencoded_serialize_empty_iff: "urlencoded_serialize tuples = [] \<longleftrightarrow> tuples = []"
proof
  assume "urlencoded_serialize tuples = []"
  then have "map urlencoded_tuple tuples = [] \<or> hd (map urlencoded_tuple tuples) = []"
    using join_eq_Nil[of "''&''" "map urlencoded_tuple tuples"]
    by (simp add: urlencoded_serialize_def)
  then show "tuples = []"
    by (cases tuples) (auto simp: urlencoded_tuple_props)
next
  assume "tuples = []"
  then show "urlencoded_serialize tuples = []" by (simp add: urlencoded_serialize_def)
qed

lemma set_join: "c \<in> set (join sep ps) \<Longrightarrow> c \<in> set sep \<or> (\<exists>p \<in> set ps. c \<in> set p)"
  by (induction sep ps rule: join.induct) auto

lemma urlencoded_serialize_alphabet:
  "c \<in> set (urlencoded_serialize tuples) \<Longrightarrow> urlencoded_safe c \<or> c \<in> set ''%+=&''"
proof -
  assume "c \<in> set (urlencoded_serialize tuples)"
  then have "c \<in> set ''&'' \<or> (\<exists>p \<in> set (map urlencoded_tuple tuples). c \<in> set p)"
    unfolding urlencoded_serialize_def by (rule set_join)
  then show ?thesis
    using urlencoded_tuple_alphabet by auto
qed

section \<open>Facts about the string conversion\<close>

lemma collect_strings_Inl: "collect_strings rs = Inl thrown \<Longrightarrow> Inl thrown \<in> set rs"
  by (induction rs rule: collect_strings.induct) (auto split: sum.splits)

lemma ToString_throws: "ToString v = Inl thrown \<Longrightarrow> thrown = type_error cannot_convert"
proof (induction v arbitrary: thrown rule: ToString.induct)
  case (6 xs)
  from "6.prems" have "collect_strings
      (map (\<lambda>x. if x = JUndefined \<or> x = JNull then Inr [] else ToString x) xs) = Inl thrown"
    by (simp split: sum.splits)
  then have "Inl thrown \<in> set (map (\<lambda>x. if x = JUndefined \<or> x = JNull then Inr [] else ToString x) xs)"
    by (rule collect_strings_Inl)
  then obtain x where "x \<in> set xs" "x \<noteq> JUndefined" "x \<noteq> JNull" "ToString x = Inl thrown"
    by (auto split: if_splits)
  then show ?case using "6.IH" by blast
qed (auto split: if_splits)

lemma cannot_convert_nonempty: "cannot_convert \<noteq> []"
  by (simp add: cannot_convert_def)

lemma request_catch_conversion_error:
  "request_catch (type_error cannot_convert) =
     ErrorObject \<lparr>error_name = ''ApiError'', error_message = cannot_convert,
                  error_status = Some 0, error_data = JNull\<rparr>"
  by (simp add: request_catch_def type_error_def throw_new_ApiError_def ApiError_def js_or_def
      cannot_convert_nonempty)

lemma URLSearchParams_new_values:
  "URLSearchParams_new ps = Inr searchParams \<Longrightarrow>
     list_all2 (\<lambda>(k, v) (k', s). k' = k \<and> ToString v = Inr s) ps searchParams"
  by (induction ps arbitrary: searchParams rule: URLSearchParams_new.induct)
     (auto split: sum.splits)

lemma URLSearchParams_new_empty_iff:
  "URLSearchParams_new ps = Inr searchParams \<Longrightarrow> searchParams = [] \<longleftrightarrow> ps = []"
  by (cases ps) (auto split: sum.splits)

lemma URLSearchParams_new_strings:
  "\<forall>(k, v) \<in> set ps. is_string v \<Longrightarrow>
     \<exists>searchParams. URLSearchParams_new ps = Inr searchParams
        \<and> map (\<lambda>(k, s). (k, JStr s)) searchParams = ps"
  by (induction ps rule: URLSearchParams_new.induct)
     (auto simp: is_string_def split: jsval.splits)

section \<open>The claims\<close>

subsection \<open>C1: the error of a response that is not ok\<close>

text \<open>
  Claim C1, amended. When \<^verbatim>\<open>fetch\<close> resolves with a response that is not ok,
  \<^verbatim>\<open>request\<close> fails with an \<^verbatim>\<open>ApiError\<close>. Its message is taken from the payload's
  \<^verbatim>\<open>message\<close> field when that field is truthy, and is the response's status text otherwise
  (the field is missing, or is the empty string, zero, \<^verbatim>\<open>false\<close> or \<^verbatim>\<open>null\<close>). When the
  value so chosen converts to a string, that string is the message, the status is the
  response's status code and the data is the parsed payload (\<^verbatim>\<open>null\<close> when the body is
  empty or is not JSON). When it does not convert (the field is an object with a property
  \<^verbatim>\<open>toString\<close>, or an array that holds one), the constructor of the error throws inside
  the \<^verbatim>\<open>try\<close> block and the \<^verbatim>\<open>catch\<close> block wraps that exception: the status is 0 and
  the data is \<^verbatim>\<open>null\<close>.
\<close>

theorem request_not_ok_error:
  assumes "request_url env path opts = Inr url"
    and "fetch env url (requestOptions env opts) = Resolved resp"
    and "\<not> ok resp"
  shows "(\<forall>msg. ToString (js_or (optional_message (responseData resp)) (JStr (statusText resp)))
                   = Inr msg \<longrightarrow>
            request env path opts =
              Inl (ErrorObject \<lparr>error_name = ''ApiError'', error_message = msg,
                                error_status = Some (status resp),
                                error_data = responseData resp\<rparr>))
       \<and> (\<not> truthy (optional_message (responseData resp)) \<longrightarrow>
            request env path opts =
              Inl (ErrorObject \<lparr>error_name = ''ApiError'', error_message = statusText resp,
                                error_status = Some (status resp),
                                error_data = responseData resp\<rparr>))
       \<and> (\<forall>thrown. ToString (js_or (optional_message (responseData resp)) (JStr (statusText resp)))
                     = Inl thrown \<longrightarrow>
            request env path opts =
              Inl (ErrorObject \<lparr>error_name = ''ApiError'', error_message = cannot_convert,
                                error_status = Some 0, error_data = JNull\<rparr>))"
proof -
  let ?m = "js_or (optional_message (responseData resp)) (JStr (statusText resp))"
  have not_undefined: "?m \<noteq> JUndefined"
    by (auto simp: js_or_def)
  have thrown: "request env path opts
      = Inl (request_catch (throw_new_ApiError ?m (status resp) (responseData resp)))"
    using assms by (simp add: request_def request_try_def)
  have converts: "request env path opts =
      Inl (ErrorObject \<lparr>error_name = ''ApiError'', error_message = msg,
                        error_status = Some (status resp), error_data = responseData resp\<rparr>)"
    if "ToString ?m = Inr msg" for msg
    using that not_undefined
    by (simp add: thrown throw_new_ApiError_def ApiError_def request_catch_def)
  have fails: "request env path opts =
      Inl (ErrorObject \<lparr>error_name = ''ApiError'', error_message = cannot_convert,
                        error_status = Some 0, error_data = JNull\<rparr>)"
    if "ToString ?m = Inl t" for t
  proof -
    have "t = type_error cannot_convert" using that by (rule ToString_throws)
    then show ?thesis
      using that not_undefined
      by (simp add: thrown throw_new_ApiError_def ApiError_def request_catch_conversion_error)
  qed
  have falsy: "ToString ?m = Inr (statusText resp)"
    if "\<not> truthy (optional_message (responseData resp))"
    using that by (simp add: js_or_def)
  show ?thesis
    using converts fails falsy by blast
qed

text \<open>
  The example of the specification: status 404 with the body \<^verbatim>\<open>{"message": "not found"}\<close>
  gives the message \<^verbatim>\<open>not found\<close>, the status 404 and the payload as data.
\<close>

theorem request_not_ok_error_witness:
  "request (dev_env no_token (responds \<lparr>ok = False, status = 404, statusText = ''NOT FOUND'',
                                       json = Some (JObj [(''message'', JStr ''not found'')])\<rparr>))
           ''/user/7'' no_options =
     Inl (ErrorObject \<lparr>error_name = ''ApiError'', error_message = ''not found'',
                       error_status = Some 404,
                       error_data = JObj [(''message'', JStr ''not found'')]\<rparr>)"
  using request_not_ok_error [of "dev_env no_token (responds \<lparr>ok = False, status = 404, statusText = ''NOT FOUND'',
                                       json = Some (JObj [(''message'', JStr ''not found'')])\<rparr>)"
         "''/user/7''" no_options "''http://127.0.0.1:5000/api/user/7''"
         "\<lparr>ok = False, status = 404, statusText = ''NOT FOUND'',
                                       json = Some (JObj [(''message'', JStr ''not found'')])\<rparr>"]
  by (simp add: dev_env_def responds_def responseData_def request_url_def API_BASE_def
      no_options_def js_or_def)

text \<open>
  Claim C1 as stated fails on status 400 with the body \<^verbatim>\<open>{"message": ""}\<close>: the field is
  present, so the claimed message is the empty string, and the message of the error is the
  status text.
\<close>

theorem request_empty_message_counterexample:
  "request (dev_env no_token (responds \<lparr>ok = False, status = 400, statusText = ''BAD REQUEST'',
                                       json = Some (JObj [(''message'', JStr [])])\<rparr>))
           ''/auth/login'' no_options =
     Inl (ErrorObject \<lparr>error_name = ''ApiError'', error_message = ''BAD REQUEST'',
                       error_status = Some 400,
                       error_data = JObj [(''message'', JStr [])]\<rparr>)
   \<and> claimed_error_message \<lparr>ok = False, status = 400, statusText = ''BAD REQUEST'',
                            json = Some (JObj [(''message'', JStr [])])\<rparr> = JStr []"
  by (simp add: eval_simps claimed_error_message_def)

subsection \<open>C2: failures are re-raised or wrapped\<close>

text \<open>
  Claim C2, amended. An \<^verbatim>\<open>Error\<close> object thrown in the \<^verbatim>\<open>try\<close> block of \<^verbatim>\<open>request\<close>
  (a rejection of \<^verbatim>\<open>fetch\<close>, the \<^verbatim>\<open>ApiError\<close> of a response that is not ok, an
  exception of its constructor) is thrown again unchanged when its name is
  \<^verbatim>\<open>ApiError\<close>, and is otherwise replaced by an \<^verbatim>\<open>ApiError\<close> with status 0, data
  \<^verbatim>\<open>null\<close> and a message that is not empty, the message of the failure or else
  \<^verbatim>\<open>Network request failed\<close>. An exception raised before the \<^verbatim>\<open>try\<close> block, while
  the URL is composed, leaves \<^verbatim>\<open>request\<close> as it is, not wrapped. When \<^verbatim>\<open>fetch\<close>
  rejects with \<^verbatim>\<open>null\<close> or \<^verbatim>\<open>undefined\<close>, the \<^verbatim>\<open>catch\<close> block itself throws the
  \<^verbatim>\<open>TypeError\<close> of reading \<^verbatim>\<open>error.name\<close>.
\<close>

theorem request_failure_wrapping:
  "(\<forall>thrown. request_url env path opts = Inl thrown \<longrightarrow> request env path opts = Inl thrown)
   \<and> (\<forall>url e. request_url env path opts = Inr url
             \<and> request_try env url (requestOptions env opts) = Inl (ErrorObject e) \<longrightarrow>
         (error_name e = ''ApiError'' \<longrightarrow> request env path opts = Inl (ErrorObject e))
       \<and> (error_name e \<noteq> ''ApiError'' \<longrightarrow>
            request env path opts =
              Inl (ErrorObject
                     \<lparr>error_name = ''ApiError'',
                      error_message = (if error_message e \<noteq> [] then error_message e
                                       else ''Network request failed''),
                      error_status = Some 0,
                      error_data = JNull\<rparr>)
            \<and> (if error_message e \<noteq> [] then error_message e
                else ''Network request failed'') \<noteq> []))
   \<and> (\<forall>url v. request_url env path opts = Inr url
             \<and> request_try env url (requestOptions env opts) = Inl (ThrownValue v)
             \<and> (v = JNull \<or> v = JUndefined) \<longrightarrow>
         request env path opts = Inl (type_error (cannot_read v ''name'')))"
  by (auto simp: request_def request_catch_def throw_new_ApiError_def ApiError_def js_or_def)

text \<open>A connection failure: \<^verbatim>\<open>fetch\<close> rejects with a \<^verbatim>\<open>TypeError\<close>.\<close>

theorem request_failure_wrapping_witness:
  "request (dev_env no_token (rejects (type_error ''Failed to fetch''))) ''/user/me'' no_options =
     Inl (ErrorObject \<lparr>error_name = ''ApiError'', error_message = ''Failed to fetch'',
                       error_status = Some 0, error_data = JNull\<rparr>)"
  using request_failure_wrapping [of "dev_env no_token (rejects (type_error ''Failed to fetch''))"
          "''/user/me''" no_options]
  by (simp add: request_try_def request_url_def dev_env_def rejects_def type_error_def
      no_options_def API_BASE_def)

text \<open>
  Claim C2 as stated fails on two failures raised inside \<^verbatim>\<open>request\<close>. With
  \<^verbatim>\<open>params = {filter: {toString: 0}}\<close> the constructor of \<^verbatim>\<open>URLSearchParams\<close> throws
  before the \<^verbatim>\<open>try\<close> block; when \<^verbatim>\<open>fetch\<close> rejects with \<^verbatim>\<open>null\<close>, the reason of an
  abort, the \<^verbatim>\<open>catch\<close> block throws. Either way \<^verbatim>\<open>request\<close> fails with a
  \<^verbatim>\<open>TypeError\<close> that has no status, not with an \<^verbatim>\<open>ApiError\<close> of status 0.
\<close>

theorem unwrapped_failure_counterexample:
  "request (dev_env no_token (rejects (type_error ''offline''))) ''/menu/items''
     (no_options\<lparr>params := Some [(''filter'', JObj [(''toString'', JNum 0)])]\<rparr>)
     = Inl (ErrorObject \<lparr>error_name = ''TypeError'', error_message = cannot_convert,
                         error_status = None, error_data = JUndefined\<rparr>)
   \<and> request (dev_env no_token (rejects (ThrownValue JNull))) ''/user/me'' no_options
     = Inl (ErrorObject \<lparr>error_name = ''TypeError'', error_message = cannot_read JNull ''name'',
                         error_status = None, error_data = JUndefined\<rparr>)"
  by (simp add: eval_simps)

subsection \<open>C3: the composed URL\<close>

text \<open>
  Claim C3, amended. When \<^verbatim>\<open>params\<close> is absent the URL is the base followed by the path.
  When \<^verbatim>\<open>params\<close> is supplied, also with no entry, the URL is the base, the path, a
  question mark and the query string; the query string is empty exactly when there is no
  entry, and it consists of unreserved characters, percent escapes, \<^verbatim>\<open>+\<close> for a space,
  and the separators \<^verbatim>\<open>=\<close> and \<^verbatim>\<open>&\<close>. (When a value of \<^verbatim>\<open>params\<close> does not convert
  to a string there is no URL: the exception of the conversion leaves \<^verbatim>\<open>request\<close>.)
\<close>

theorem url_composition:
  "(params opts = None \<longrightarrow> request_url env path opts = Inr (API_BASE env @ path))
   \<and> (\<forall>ps searchParams. params opts = Some ps \<and> URLSearchParams_new ps = Inr searchParams \<longrightarrow>
        request_url env path opts
          = Inr (API_BASE env @ path @ ''?'' @ URLSearchParams_toString searchParams)
      \<and> (URLSearchParams_toString searchParams = [] \<longleftrightarrow> ps = [])
      \<and> (\<forall>c \<in> set (URLSearchParams_toString searchParams).
            urlencoded_safe c \<or> c \<in> set ''%+=&''))
   \<and> (\<forall>ps thrown. params opts = Some ps \<and> URLSearchParams_new ps = Inl thrown \<longrightarrow>
        request_url env path opts = Inl thrown)"
  using urlencoded_serialize_alphabet URLSearchParams_new_empty_iff
  by (auto simp: request_url_def Let_def URLSearchParams_toString_def
      urlencoded_serialize_empty_iff)

text \<open>A call without \<^verbatim>\<open>params\<close>, and a call with two entries.\<close>

theorem url_composition_witness:
  "request_url (dev_env no_token (rejects (type_error ''offline''))) ''/reservations'' no_options
     = Inr ''http://127.0.0.1:5000/api/reservations''
   \<and> request_url (dev_env no_token (rejects (type_error ''offline''))) ''/reservations''
       (no_options\<lparr>params := Some [(''status'', JStr ''a b&c''), (''page'', JNum 2)]\<rparr>)
     = Inr ''http://127.0.0.1:5000/api/reservations?status=a+b%26c&page=2''"
  using url_composition [of no_options "dev_env no_token (rejects (type_error ''offline''))" "''/reservations''"]
    url_composition [of "no_options\<lparr>params := Some [(''status'', JStr ''a b&c''), (''page'', JNum 2)]\<rparr>"
      "dev_env no_token (rejects (type_error ''offline''))" "''/reservations''"]
  by (simp add: no_options_def dev_env_def API_BASE_def URLSearchParams_toString_def
      urlencoded_serialize_def urlencoded_safe_def percent_encode_byte_def
      hex_digit_def Number_toString_def nat_digits.simps digit_char_def)

text \<open>
  Claim C3 as stated fails on the empty object as \<^verbatim>\<open>params\<close>: it carries no key-value
  pair, and the URL ends with a question mark, so it is not the base followed by the path.
\<close>

theorem empty_params_counterexample:
  "request_url (dev_env no_token (rejects (type_error ''offline''))) ''/reservations''
     (no_options\<lparr>params := Some []\<rparr>) = Inr ''http://127.0.0.1:5000/api/reservations?''
   \<and> request_url (dev_env no_token (rejects (type_error ''offline''))) ''/reservations''
       (no_options\<lparr>params := Some []\<rparr>)
     \<noteq> Inr (API_BASE (dev_env no_token (rejects (type_error ''offline''))) @ ''/reservations'')"
  by (simp add: eval_simps URLSearchParams_toString_def urlencoded_serialize_def)

subsection \<open>C4: decoding the query string\<close>

text \<open>
  Claim C4, amended. When \<^verbatim>\<open>params\<close> is supplied, decoding the query string of the URL
  gives the keys of \<^verbatim>\<open>params\<close> in their order, each with the string conversion of its
  value; when every value is a string, it gives the entries of \<^verbatim>\<open>params\<close> themselves.
  (When a value does not convert to a string there is no URL: the exception of the
  conversion leaves \<^verbatim>\<open>request\<close>.)
\<close>

theorem query_decoding:
  assumes "params opts = Some ps"
  shows "(\<forall>searchParams. URLSearchParams_new ps = Inr searchParams \<longrightarrow>
            request_url env path opts
              = Inr (API_BASE env @ path @ ''?'' @ URLSearchParams_toString searchParams)
          \<and> urlencoded_parse (URLSearchParams_toString searchParams) = searchParams
          \<and> list_all2 (\<lambda>(k, v) (k', s). k' = k \<and> ToString v = Inr s) ps searchParams)
       \<and> (\<forall>thrown. URLSearchParams_new ps = Inl thrown \<longrightarrow> request_url env path opts = Inl thrown)
       \<and> ((\<forall>(k, v) \<in> set ps. is_string v) \<longrightarrow>
            (\<exists>query. request_url env path opts = Inr (API_BASE env @ path @ ''?'' @ query)
                    \<and> decoded_pairs query = ps))"
proof -
  have decoding: "urlencoded_parse (URLSearchParams_toString searchParams) = searchParams"
    for searchParams
    by (simp add: URLSearchParams_toString_def urlencoded_roundtrip)
  have url: "request_url env path opts
      = Inr (API_BASE env @ path @ ''?'' @ URLSearchParams_toString searchParams)"
    if "URLSearchParams_new ps = Inr searchParams" for searchParams
    using assms that by (simp add: request_url_def Let_def)
  have failure: "request_url env path opts = Inl thrown"
    if "URLSearchParams_new ps = Inl thrown" for thrown
    using assms that by (simp add: request_url_def Let_def)
  have strings: "\<exists>query. request_url env path opts = Inr (API_BASE env @ path @ ''?'' @ query)
                    \<and> decoded_pairs query = ps"
    if "\<forall>(k, v) \<in> set ps. is_string v"
  proof -
    from that obtain searchParams where sp: "URLSearchParams_new ps = Inr searchParams"
      and restored: "map (\<lambda>(k, s). (k, JStr s)) searchParams = ps"
      using URLSearchParams_new_strings by blast
    have "decoded_pairs (URLSearchParams_toString searchParams) = ps"
      by (simp add: decoded_pairs_def decoding restored)
    then show ?thesis using url [OF sp] by blast
  qed
  show ?thesis
    using decoding url failure strings URLSearchParams_new_values by blast
qed

text \<open>Two string values, one of them with a space and an ampersand.\<close>

theorem query_decoding_witness:
  "request_url (dev_env no_token (rejects (type_error ''offline''))) ''/reservations''
     (no_options\<lparr>params := Some [(''status'', JStr ''a b&c''), (''date'', JStr ''2025-01-01'')]\<rparr>)
     = Inr ''http://127.0.0.1:5000/api/reservations?status=a+b%26c&date=2025-01-01''
   \<and> decoded_pairs ''status=a+b%26c&date=2025-01-01''
     = [(''status'', JStr ''a b&c''), (''date'', JStr ''2025-01-01'')]"
proof -
  have url: "request_url (dev_env no_token (rejects (type_error ''offline''))) ''/reservations''
     (no_options\<lparr>params := Some [(''status'', JStr ''a b&c''), (''date'', JStr ''2025-01-01'')]\<rparr>)
     = Inr ''http://127.0.0.1:5000/api/reservations?status=a+b%26c&date=2025-01-01''"
    by code_simp
  have "\<exists>query. request_url (dev_env no_token (rejects (type_error ''offline''))) ''/reservations''
     (no_options\<lparr>params := Some [(''status'', JStr ''a b&c''), (''date'', JStr ''2025-01-01'')]\<rparr>)
       = Inr (API_BASE (dev_env no_token (rejects (type_error ''offline''))) @ ''/reservations''
              @ ''?'' @ query)
     \<and> decoded_pairs query = [(''status'', JStr ''a b&c''), (''date'', JStr ''2025-01-01'')]"
    using query_decoding [of "no_options\<lparr>params := Some [(''status'', JStr ''a b&c''), (''date'', JStr ''2025-01-01'')]\<rparr>"
      "[(''status'', JStr ''a b&c''), (''date'', JStr ''2025-01-01'')]"
      "dev_env no_token (rejects (type_error ''offline''))" "''/reservations''",
      THEN conjunct2, THEN conjunct2]
    by (simp add: is_string_def)
  then obtain query where
    "Inr ''http://127.0.0.1:5000/api/reservations?status=a+b%26c&date=2025-01-01''
       = (Inr (API_BASE (dev_env no_token (rejects (type_error ''offline''))) @ ''/reservations''
              @ ''?'' @ query) :: js_thrown + string)"
    and decoded: "decoded_pairs query = [(''status'', JStr ''a b&c''), (''date'', JStr ''2025-01-01'')]"
    unfolding url by blast
  then have "query = ''status=a+b%26c&date=2025-01-01''"
    by (simp add: API_BASE_def dev_env_def)
  then show ?thesis
    using url decoded by simp
qed

text \<open>
  Claim C4 as stated fails on \<^verbatim>\<open>{page: 2, tags: ["a", "b"]}\<close>: the decoded values are
  the strings \<^verbatim>\<open>2\<close> and \<^verbatim>\<open>a,b\<close>, not the number and the array.
\<close>

theorem query_decoding_counterexample:
  "request_url (dev_env no_token (rejects (type_error ''offline''))) ''/menu/items''
     (no_options\<lparr>params := Some [(''page'', JNum 2), (''tags'', JArr [JStr ''a'', JStr ''b''])]\<rparr>)
     = Inr ''http://127.0.0.1:5000/api/menu/items?page=2&tags=a%2Cb''
   \<and> decoded_pairs ''page=2&tags=a%2Cb'' = [(''page'', JStr ''2''), (''tags'', JStr ''a,b'')]
   \<and> decoded_pairs ''page=2&tags=a%2Cb'' \<noteq> [(''page'', JNum 2), (''tags'', JArr [JStr ''a'', JStr ''b''])]"
proof -
  have "request_url (dev_env no_token (rejects (type_error ''offline''))) ''/menu/items''
     (no_options\<lparr>params := Some [(''page'', JNum 2), (''tags'', JArr [JStr ''a'', JStr ''b''])]\<rparr>)
     = Inr ''http://127.0.0.1:5000/api/menu/items?page=2&tags=a%2Cb''"
    by code_simp
  moreover have "decoded_pairs ''page=2&tags=a%2Cb'' = [(''page'', JStr ''2''), (''tags'', JStr ''a,b'')]"
    by code_simp
  ultimately show ?thesis by simp
qed

subsection \<open>C5: the Authorization header\<close>

text \<open>
  Claim C5, amended. When a token (a string that is not empty) is stored, the headers of
  the request have \<^verbatim>\<open>Authorization: Bearer <token>\<close>. When no token is stored (or the
  stored string is empty), \<^verbatim>\<open>request\<close> adds no such header: the request has an
  \<^verbatim>\<open>Authorization\<close> header exactly when the caller's \<^verbatim>\<open>headers\<close> have one, with the
  caller's value.
\<close>

theorem authorization_header:
  "(\<forall>t. localStorage env ''token'' = Some t \<and> t \<noteq> [] \<longrightarrow>
        ro_headers (requestOptions env opts) ''Authorization'' = Some (''Bearer '' @ t))
   \<and> (localStorage env ''token'' = None \<or> localStorage env ''token'' = Some [] \<longrightarrow>
        ro_headers (requestOptions env opts) ''Authorization'' = headers opts ''Authorization'')"
  by (auto simp: requestOptions_def getAuthToken_def Let_def map_add_def split: option.splits)

text \<open>A stored token, and no token, without headers of the caller.\<close>

theorem authorization_header_witness:
  "ro_headers (requestOptions (dev_env (stored_token ''abc'') (rejects (type_error ''offline'')))
                 no_options) ''Authorization'' = Some ''Bearer abc''
   \<and> ro_headers (requestOptions (dev_env no_token (rejects (type_error ''offline'')))
                 no_options) ''Authorization'' = None"
  using authorization_header [of "dev_env (stored_token ''abc'') (rejects (type_error ''offline''))" no_options]
    authorization_header [of "dev_env no_token (rejects (type_error ''offline''))" no_options]
  by (simp add: dev_env_def stored_token_def no_token_def no_options_def)

text \<open>
  Claim C5 as stated fails when no token is stored and the caller passes an
  \<^verbatim>\<open>Authorization\<close> header: the header is present in the request.
\<close>

theorem caller_authorization_counterexample:
  "localStorage (dev_env no_token (rejects (type_error ''offline''))) ''token'' = None
   \<and> ro_headers (requestOptions (dev_env no_token (rejects (type_error ''offline'')))
                  (no_options\<lparr>headers := one_header ''Authorization'' ''Basic dXNlcjpwdw==''\<rparr>))
       ''Authorization'' = Some ''Basic dXNlcjpwdw==''"
  by (simp add: eval_simps)

subsection \<open>C6: the body and the Content-Type header\<close>

text \<open>
  Claim C6, amended. When the body is a \<^verbatim>\<open>FormData\<close>, the request has no
  \<^verbatim>\<open>Content-Type\<close> header and its body is the \<^verbatim>\<open>FormData\<close> itself. Otherwise, when
  the body is truthy, the body of the request is its JSON text; and, whether or not a body is
  sent, the \<^verbatim>\<open>Content-Type\<close> of the request is \<^verbatim>\<open>application/json\<close> unless the caller's
  \<^verbatim>\<open>headers\<close> have a \<^verbatim>\<open>Content-Type\<close>, which then stands.
\<close>

theorem body_and_content_type:
  "(instanceof_FormData (body opts) \<longrightarrow>
       ro_headers (requestOptions env opts) ''Content-Type'' = None
     \<and> ro_body (requestOptions env opts) = Some (body opts))
   \<and> (\<not> instanceof_FormData (body opts) \<longrightarrow>
       (truthy (body opts) \<longrightarrow>
          (\<exists>text. JSON_stringify (body opts) = Some text
                 \<and> ro_body (requestOptions env opts) = Some (JStr text)))
     \<and> ro_headers (requestOptions env opts) ''Content-Type'' =
          Some (case headers opts ''Content-Type'' of None \<Rightarrow> ''application/json'' | Some v \<Rightarrow> v))"
proof -
  have fd: "instanceof_FormData (body opts) \<Longrightarrow> truthy (body opts)"
    by (cases "body opts") auto
  have js: "truthy (body opts) \<Longrightarrow> \<exists>text. JSON_stringify (body opts) = Some text"
    by (cases "body opts") auto
  show ?thesis
    using fd js
    by (auto simp: requestOptions_def Let_def map_add_def split: option.splits)
qed

text \<open>An upload of a file, and the JSON body \<^verbatim>\<open>{"n":1}\<close>.\<close>

theorem body_and_content_type_witness:
  "ro_headers (requestOptions (dev_env no_token (rejects (type_error ''offline'')))
                 (no_options\<lparr>method := Some ''POST'', body := JFormData [(''avatar'', ''PNG'')]\<rparr>))
     ''Content-Type'' = None
   \<and> ro_body (requestOptions (dev_env no_token (rejects (type_error ''offline'')))
                 (no_options\<lparr>method := Some ''POST'', body := JFormData [(''avatar'', ''PNG'')]\<rparr>))
     = Some (JFormData [(''avatar'', ''PNG'')])
   \<and> ro_headers (requestOptions (dev_env no_token (rejects (type_error ''offline'')))
                 (no_options\<lparr>method := Some ''PATCH'', body := JObj [(''n'', JNum 1)]\<rparr>))
     ''Content-Type'' = Some ''application/json''
   \<and> ro_body (requestOptions (dev_env no_token (rejects (type_error ''offline'')))
                 (no_options\<lparr>method := Some ''PATCH'', body := JObj [(''n'', JNum 1)]\<rparr>))
     = Some (JStr [CHR ''{'', CHR 0x22, CHR ''n'', CHR 0x22, CHR '':'', CHR ''1'', CHR ''}''])"
  using body_and_content_type [of "no_options\<lparr>method := Some ''POST'', body := JFormData [(''avatar'', ''PNG'')]\<rparr>"
          "dev_env no_token (rejects (type_error ''offline''))"]
    body_and_content_type [of "no_options\<lparr>method := Some ''PATCH'', body := JObj [(''n'', JNum 1)]\<rparr>"
          "dev_env no_token (rejects (type_error ''offline''))"]
  by (simp add: no_options_def QuoteJSONString_def quote_char_def Number_toString_def
      nat_digits.simps digit_char_def)

text \<open>
  Claim C6 as stated fails on the body \<^verbatim>\<open>0\<close>: it is present, it is not a \<^verbatim>\<open>FormData\<close>,
  its JSON text is \<^verbatim>\<open>0\<close>, and the request has no body.
\<close>

theorem falsy_body_counterexample:
  "\<not> instanceof_FormData (JNum 0)
   \<and> JSON_stringify (JNum 0) = Some ''0''
   \<and> ro_body (requestOptions (dev_env no_token (rejects (type_error ''offline'')))
                (no_options\<lparr>method := Some ''PUT'', body := JNum 0\<rparr>)) = None"
  by (simp add: eval_simps Number_toString_def nat_digits.simps digit_char_def)

subsection \<open>C7: success without a payload\<close>

text \<open>
  Claim C7. When \<^verbatim>\<open>fetch\<close>, called with the composed URL, resolves with a response that
  is ok and whose body is empty or is not JSON, \<^verbatim>\<open>request\<close> returns \<^verbatim>\<open>null\<close> and raises
  no error.
\<close>

theorem request_success_absent_payload:
  assumes "request_url env path opts = Inr url"
    and "fetch env url (requestOptions env opts) = Resolved resp"
    and "ok resp" and "json resp = None"
  shows "request env path opts = Inr JNull"
  using assms by (simp add: request_def request_try_def responseData_def)

text \<open>Status 204 with an empty body.\<close>

theorem request_success_absent_payload_witness:
  "request (dev_env no_token (responds \<lparr>ok = True, status = 204, statusText = ''NO CONTENT'',
                                       json = None\<rparr>))
           ''/user/delete'' (no_options\<lparr>method := Some ''DELETE''\<rparr>) = Inr JNull"
  using request_success_absent_payload [of "dev_env no_token (responds \<lparr>ok = True, status = 204, statusText = ''NO CONTENT'',
                                       json = None\<rparr>)" "''/user/delete''" "no_options\<lparr>method := Some ''DELETE''\<rparr>"
          "''http://127.0.0.1:5000/api/user/delete''"
          "\<lparr>ok = True, status = 204, statusText = ''NO CONTENT'', json = None\<rparr>"]
  by (simp add: dev_env_def responds_def request_url_def API_BASE_def no_options_def)

subsection \<open>C8: logout clears the token first\<close>

text \<open>
  Claim C8. After \<^verbatim>\<open>auth.logout\<close> the storage holds no token, whatever the network
  does; the request to \<^verbatim>\<open>/auth/logout\<close> is made with the storage already cleared, so
  it carries no \<^verbatim>\<open>Authorization\<close> header.
\<close>

theorem logout_clears_token:
  "localStorage (fst (auth_logout env)) ''token'' = None
   \<and> getAuthToken (fst (auth_logout env)) = JNull
   \<and> snd (auth_logout env) = request (clearAuthToken env) ''/auth/logout'' no_options
   \<and> ro_headers (requestOptions (clearAuthToken env) no_options) ''Authorization'' = None"
  by (simp add: auth_logout_def clearAuthToken_def getAuthToken_def requestOptions_def
      no_options_def Let_def)

text \<open>A stored token and a network call that fails.\<close>

theorem logout_clears_token_witness:
  "localStorage (fst (auth_logout (dev_env (stored_token ''abc'')
                                     (rejects (type_error ''Failed to fetch''))))) ''token'' = None
   \<and> snd (auth_logout (dev_env (stored_token ''abc'') (rejects (type_error ''Failed to fetch'')))) =
       Inl (ErrorObject \<lparr>error_name = ''ApiError'', error_message = ''Failed to fetch'',
                         error_status = Some 0, error_data = JNull\<rparr>)"
  using logout_clears_token [of "dev_env (stored_token ''abc'') (rejects (type_error ''Failed to fetch''))"]
  by (simp add: eval_simps)

subsection \<open>C9: a falsy body is not sent\<close>

text \<open>
  Claim C9. When the body is falsy (\<^verbatim>\<open>0\<close>, the empty string, \<^verbatim>\<open>false\<close>, \<^verbatim>\<open>null\<close>),
  the request has no body, and both the object given to \<^verbatim>\<open>fetch\<close> and the outcome of
  \<^verbatim>\<open>request\<close> are those of the same call without a body.
\<close>

theorem falsy_body_not_sent:
  assumes "\<not> truthy b"
  shows "ro_body (requestOptions env (opts\<lparr>body := b\<rparr>)) = None
       \<and> requestOptions env (opts\<lparr>body := b\<rparr>) = requestOptions env (opts\<lparr>body := JUndefined\<rparr>)
       \<and> request env path (opts\<lparr>body := b\<rparr>) = request env path (opts\<lparr>body := JUndefined\<rparr>)"
proof -
  have same_options:
    "requestOptions env (opts\<lparr>body := b\<rparr>) = requestOptions env (opts\<lparr>body := JUndefined\<rparr>)"
    using assms by (simp add: requestOptions_def Let_def)
  have same_url:
    "request_url env path (opts\<lparr>body := b\<rparr>) = request_url env path (opts\<lparr>body := JUndefined\<rparr>)"
    by (simp add: request_url_def)
  have no_body: "ro_body (requestOptions env (opts\<lparr>body := b\<rparr>)) = None"
    using assms by (simp add: requestOptions_def Let_def)
  have same_outcome:
    "request env path (opts\<lparr>body := b\<rparr>) = request env path (opts\<lparr>body := JUndefined\<rparr>)"
    by (simp only: request_def same_options same_url)
  show ?thesis
    using no_body same_options same_outcome by blast
qed

text \<open>The body \<^verbatim>\<open>0\<close>.\<close>

theorem falsy_body_not_sent_witness:
  "\<not> truthy (JNum 0)
   \<and> ro_body (requestOptions (dev_env no_token (rejects (type_error ''offline'')))
                (no_options\<lparr>body := JNum 0\<rparr>)) = None
   \<and> requestOptions (dev_env no_token (rejects (type_error ''offline''))) (no_options\<lparr>body := JNum 0\<rparr>)
     = requestOptions (dev_env no_token (rejects (type_error ''offline'')))
         (no_options\<lparr>body := JUndefined\<rparr>)
   \<and> request (dev_env no_token (rejects (type_error ''offline''))) ''/payments/3''
         (no_options\<lparr>body := JNum 0\<rparr>)
     = request (dev_env no_token (rejects (type_error ''offline''))) ''/payments/3''
         (no_options\<lparr>body := JUndefined\<rparr>)"
proof -
  have falsy: "\<not> truthy (JNum 0)" by simp
  show ?thesis
    using falsy falsy_body_not_sent [OF falsy, of "dev_env no_token (rejects (type_error ''offline''))"
        no_options "''/payments/3''"]
    by blast
qed

subsection \<open>C10: the stored token wins over the caller's header\<close>

text \<open>
  Claim C10, amended. While a token that is not the empty string is stored, the
  \<^verbatim>\<open>Authorization\<close> header of the request is \<^verbatim>\<open>Bearer <token>\<close>, whatever value the
  caller's \<^verbatim>\<open>headers\<close> give to \<^verbatim>\<open>Authorization\<close>. While the empty string is stored,
  \<^verbatim>\<open>if (token)\<close> takes it for no token, and the caller's value is what the request carries.
\<close>

theorem stored_token_overrides_caller:
  "(\<forall>t. localStorage env ''token'' = Some t \<and> t \<noteq> [] \<longrightarrow>
       ro_headers (requestOptions env (opts\<lparr>headers := (headers opts)(''Authorization'' \<mapsto> a)\<rparr>))
         ''Authorization'' = Some (''Bearer '' @ t))
   \<and> (localStorage env ''token'' = Some [] \<longrightarrow>
       ro_headers (requestOptions env (opts\<lparr>headers := (headers opts)(''Authorization'' \<mapsto> a)\<rparr>))
         ''Authorization'' = Some a)"
  by (simp add: requestOptions_def getAuthToken_def Let_def)

text \<open>The token \<^verbatim>\<open>abc\<close> against a \<^verbatim>\<open>Basic\<close> header of the caller.\<close>

theorem stored_token_overrides_caller_witness:
  "ro_headers (requestOptions (dev_env (stored_token ''abc'') (rejects (type_error ''offline'')))
                 (no_options\<lparr>headers := (headers no_options)(''Authorization'' \<mapsto> ''Basic dXNlcjpwdw=='')\<rparr>))
     ''Authorization'' = Some ''Bearer abc''"
  using stored_token_overrides_caller [of "dev_env (stored_token ''abc'') (rejects (type_error ''offline''))"
          no_options "''Basic dXNlcjpwdw==''"]
  by (simp add: dev_env_def stored_token_def)

text \<open>
  Claim C10 as stated fails while the empty string is stored as the token: the request
  carries the caller's \<^verbatim>\<open>Authorization\<close> value, not \<^verbatim>\<open>Bearer\<close> followed by the stored
  token.
\<close>

theorem empty_token_counterexample:
  "localStorage (dev_env (stored_token []) (rejects (type_error ''offline''))) ''token'' = Some []
   \<and> ro_headers (requestOptions (dev_env (stored_token []) (rejects (type_error ''offline'')))
                  (no_options\<lparr>headers := one_header ''Authorization'' ''Basic dXNlcjpwdw==''\<rparr>))
       ''Authorization'' = Some ''Basic dXNlcjpwdw==''"
  by (simp add: eval_simps)


end
